theory Spec2Isabelle
  imports Main "HOL-Library.Sublist" "HOL-Library.Multiset"
begin

section \<open>Python values shared by the three modules\<close>

text \<open>
  A Python \<^verbatim>\<open>str\<close> is a sequence of Unicode code points, so it is modelled as a list
  of natural numbers; \<open>lit\<close> embeds an ASCII literal of the source. A \<^verbatim>\<open>bytes\<close>
  value is a list of octets. A \<^verbatim>\<open>pathlib.Path\<close> is the list of its parts (for an
  absolute POSIX path the first part is \<^verbatim>\<open>/\<close>).
\<close>

type_synonym pystr = "nat list"
type_synonym pybytes = "nat list"
type_synonym pypath = "pystr list"

definition lit :: "string \<Rightarrow> pystr" where
  "lit s = map of_char s"

fun join :: "pystr \<Rightarrow> pystr list \<Rightarrow> pystr" where
  "join sep [] = []"
| "join sep [x] = x"
| "join sep (x # y # ys) = x @ sep @ join sep (y # ys)"

definition div_path :: "pypath \<Rightarrow> pystr \<Rightarrow> pypath" where
  "div_path p seg = p @ [seg]"

definition str_path :: "pypath \<Rightarrow> pystr" where
  "str_path p =
     (case p of
        [] \<Rightarrow> lit ''.''
      | r # rest \<Rightarrow> if r = lit ''/'' then r @ join (lit ''/'') rest else join (lit ''/'') p)"

text \<open>
  Modelled from the spec: the enumerations \<^verbatim>\<open>Distribution\<close> and \<^verbatim>\<open>DockerVersion\<close>
  are declared in \<^verbatim>\<open>distributions.py\<close> and \<^verbatim>\<open>docker_versions.py\<close>, which are not among
  the sources. The constructors below are the members the sources name (\<^verbatim>\<open>RHEL_7\<close> in
  the AWS distribution tests); the last constructor of each type stands for any further
  member, identified by its name.
\<close>

datatype Distribution = CENTOS_7 | COREOS | RHEL_7 | Distribution_other pystr

datatype DockerVersion = v1_11_2 | v1_13_1 | v17_12_1_ce | DockerVersion_other pystr

text \<open>
  The keyword arguments of \<^verbatim>\<open>client.images.build\<close>; the build arguments are empty
  where the call passes none.
\<close>

record build_request =
  req_path :: pystr
  req_rm :: bool
  req_forcerm :: bool
  req_tag :: pystr
  req_buildargs :: "(pystr \<times> pystr) list"

datatype pykey = Key_Distribution Distribution | Key_DockerVersion DockerVersion | Key_str pystr

text \<open>
  Every exception the modelled code can raise. \<open>KeyError\<close> carries the key that was
  missing, as Python's does, which tells the failed distribution lookup from the failed
  version lookup.
\<close>

datatype error =
    KeyError pykey
  | TypeError
  | JSONDecodeError
  | UnicodeDecodeError
  | BuildError build_request
  | CalledProcessError int pybytes
  | FileExistsError pypath
  | FileNotFoundError pypath
  | BadParameter pystr

section \<open>Building the node image (\<^verbatim>\<open>_docker_build.py\<close>)\<close>

subsection \<open>The Docker daemon\<close>

text \<open>
  The daemon behind \<^verbatim>\<open>docker.from_env\<close> is an image store, a map from tag to image,
  together with the list of build steps it has run, oldest first. What a build step
  produces is decided outside the program: \<open>bld req store\<close> is the image built for
  request \<open>req\<close> over the store, or \<open>None\<close> when the build fails. A step that succeeds
  creates or overwrites the request's tag; a step that fails raises and tags nothing.
  The model starts from the client that \<^verbatim>\<open>docker.from_env\<close> has returned.
\<close>

record 'img docker =
  images :: "pystr \<rightharpoonup> 'img"
  build_steps :: "build_request list"

type_synonym 'img builder = "build_request \<Rightarrow> (pystr \<rightharpoonup> 'img) \<Rightarrow> 'img option"

definition images_build ::
  "'img builder \<Rightarrow> build_request \<Rightarrow> 'img docker \<Rightarrow> (error + unit) \<times> 'img docker" where
  "images_build bld req d =
     (let d1 = d\<lparr>build_steps := build_steps d @ [req]\<rparr> in
      case bld req (images d) of
        None \<Rightarrow> (Inl (BuildError req), d1)
      | Some img \<Rightarrow> (Inr (), d1\<lparr>images := (images d)(req_tag req \<mapsto> img)\<rparr>))"

subsection \<open>The program\<close>

definition dcos_docker_distros :: "Distribution \<rightharpoonup> pystr" where
  "dcos_docker_distros =
     [CENTOS_7 \<mapsto> lit ''centos-7'', COREOS \<mapsto> lit ''coreos'']"

definition docker_versions :: "DockerVersion \<rightharpoonup> pystr" where
  "docker_versions =
     [v1_11_2 \<mapsto> lit ''1.11.2'', v1_13_1 \<mapsto> lit ''1.13.1'',
      v17_12_1_ce \<mapsto> lit ''17.12.1-ce'']"

text \<open>
  \<open>current_parent\<close> is the directory of the module's own file, which the source reads
  from the interpreter's stack.
\<close>

definition base_dockerfile :: "pypath \<Rightarrow> Distribution \<Rightarrow> error + pypath" where
  "base_dockerfile current_parent linux_distribution =
     (case dcos_docker_distros linux_distribution of
        None \<Rightarrow> Inl (KeyError (Key_Distribution linux_distribution))
      | Some distro_path_segment \<Rightarrow>
          (let dockerfiles =
                 div_path (div_path (div_path current_parent (lit ''resources''))
                   (lit ''dockerfiles'')) (lit ''base'')
           in Inr (div_path dockerfiles distro_path_segment)))"

definition docker_dockerfile :: "pypath \<Rightarrow> pypath" where
  "docker_dockerfile current_parent =
     div_path (div_path (div_path current_parent (lit ''resources''))
       (lit ''dockerfiles'')) (lit ''base-docker'')"

definition base_request :: "pypath \<Rightarrow> pystr \<Rightarrow> build_request" where
  "base_request base_df base_tag =
     \<lparr>req_path = str_path base_df, req_rm = True, req_forcerm = True,
      req_tag = base_tag, req_buildargs = []\<rparr>"

definition docker_request :: "pypath \<Rightarrow> pystr \<Rightarrow> pystr \<Rightarrow> build_request" where
  "docker_request docker_df tag version =
     \<lparr>req_path = str_path docker_df, req_rm = True, req_forcerm = True,
      req_tag = tag, req_buildargs = [(lit ''DOCKER_VERSION'', version)]\<rparr>"

text \<open>
  The statements of \<^verbatim>\<open>build_docker_image\<close> in their order: the distribution lookup
  inside \<^verbatim>\<open>_base_dockerfile\<close>, the first \<^verbatim>\<open>client.images.build\<close>, then the
  arguments of the second call, among them \<^verbatim>\<open>docker_versions[docker_version]\<close>, and
  the second call itself. An exception ends the function where it is raised.
\<close>

definition build_docker_image ::
  "'img builder \<Rightarrow> pypath \<Rightarrow> pystr \<Rightarrow> Distribution \<Rightarrow> DockerVersion \<Rightarrow> 'img docker
     \<Rightarrow> (error + unit) \<times> 'img docker" where
  "build_docker_image bld current_parent tag linux_distribution docker_version client =
     (let base_tag = tag @ lit '':base'' in
      case base_dockerfile current_parent linux_distribution of
        Inl e \<Rightarrow> (Inl e, client)
      | Inr base_df \<Rightarrow>
          (let docker_df = docker_dockerfile current_parent in
           case images_build bld (base_request base_df base_tag) client of
             (Inl e, client1) \<Rightarrow> (Inl e, client1)
           | (Inr u, client1) \<Rightarrow>
               (case docker_versions docker_version of
                  None \<Rightarrow> (Inl (KeyError (Key_DockerVersion docker_version)), client1)
                | Some version \<Rightarrow>
                    images_build bld (docker_request docker_df tag version) client1)))"

text \<open>The spec's names for the two failed lookups.\<close>

definition UnsupportedDistribution :: "Distribution \<Rightarrow> error" where
  "UnsupportedDistribution linux_distribution = KeyError (Key_Distribution linux_distribution)"

definition UnsupportedRuntimeVersion :: "DockerVersion \<Rightarrow> error" where
  "UnsupportedRuntimeVersion docker_version = KeyError (Key_DockerVersion docker_version)"

section \<open>Resolving a node reference (\<^verbatim>\<open>validate_node_reference\<close>)\<close>

text \<open>
  \<^verbatim>\<open>str.upper\<close> maps each code point to its upper-case expansion and concatenates.
  On ASCII that is the shift of \<^verbatim>\<open>a\<close>..\<^verbatim>\<open>z\<close>; beyond ASCII it follows the Unicode
  tables of the interpreter, taken here as the parameter \<open>U\<close>.
\<close>

definition upper_cp :: "(nat \<Rightarrow> pystr) \<Rightarrow> nat \<Rightarrow> pystr" where
  "upper_cp U c = (if 97 \<le> c \<and> c \<le> 122 then [c - 32] else if c < 128 then [c] else U c)"

definition upper :: "(nat \<Rightarrow> pystr) \<Rightarrow> pystr \<Rightarrow> pystr" where
  "upper U s = concat (map (upper_cp U) s)"

text \<open>
  Modelled from the spec: \<^verbatim>\<open>ClusterContainers\<close> and \<^verbatim>\<open>ContainerInspectView\<close> live in
  \<^verbatim>\<open>_common.py\<close>, which is not among the sources. A container is the record of the
  four facts that \<^verbatim>\<open>validate_node_reference\<close> reads from
  \<^verbatim>\<open>ContainerInspectView(container).to_dict()\<close>, so two containers are the same when
  these facts are; a cluster gives its containers by role and turns a container into a
  node.
\<close>

record container =
  e2e_reference :: pystr
  ip_address :: pystr
  docker_container_name :: pystr
  docker_container_id :: pystr

record 'node ClusterContainers =
  masters :: "container list"
  agents :: "container list"
  public_agents :: "container list"
  to_node :: "container \<Rightarrow> 'node"

record params =
  cluster_id :: pystr
  artifact :: pystr
  workspace_dir :: "pypath option"

text \<open>
  The source collects the containers into a Python set and iterates over it. The set
  holds each container once, in an order the interpreter chooses: here the order of an
  arbitrary ranking \<open>rank\<close> of the containers, so that a statement for every \<open>rank\<close> is
  a statement for every iteration order.
\<close>

definition set_iteration :: "(container \<Rightarrow> nat) \<Rightarrow> container list \<Rightarrow> container list" where
  "set_iteration rank xs = sort_key rank (remdups xs)"

text \<open>The ranking that puts the elements of a list in the order of that list.\<close>

definition position :: "'a list \<Rightarrow> 'a \<Rightarrow> nat" where
  "position ys c = length (takeWhile (\<lambda>x. x \<noteq> c) ys)"

definition accepted :: "(nat \<Rightarrow> pystr) \<Rightarrow> container \<Rightarrow> pystr list" where
  "accepted U c =
     (let reference = e2e_reference c in
      [reference, upper U reference, ip_address c, docker_container_name c,
       docker_container_id c])"

fun first_accepting :: "(nat \<Rightarrow> pystr) \<Rightarrow> pystr \<Rightarrow> container list \<Rightarrow> container option" where
  "first_accepting U value [] = None"
| "first_accepting U value (container # containers) =
     (if value \<in> set (accepted U container) then Some container
      else first_accepting U value containers)"

definition no_such_node_message :: "pystr \<Rightarrow> pystr \<Rightarrow> pystr" where
  \<open>no_such_node_message cid value =
     lit ''No such node in cluster "'' @ cid @
     lit ''" with IP address, Docker container ID or node reference "'' @ value @
     lit ''". Node references can be seen with '' @ [96, 96] @ lit ''dcos_docker inspect'' @
     [96, 96] @ lit ''.''\<close>

definition validate_node_reference ::
  "(nat \<Rightarrow> pystr) \<Rightarrow> (container \<Rightarrow> nat) \<Rightarrow> (pystr \<Rightarrow> 'node ClusterContainers) \<Rightarrow> params
     \<Rightarrow> pystr \<Rightarrow> error + 'node" where
  "validate_node_reference U rank find_cluster ctx_params value =
     (let cid = cluster_id ctx_params;
          cluster_containers = find_cluster cid;
          containers = set_iteration rank
            (masters cluster_containers @ agents cluster_containers @
             public_agents cluster_containers)
      in case first_accepting U value containers of
           Some container \<Rightarrow> Inr (to_node cluster_containers container)
         | None \<Rightarrow> Inl (BadParameter (no_such_node_message cid value)))"

section \<open>Classifying an artifact (\<^verbatim>\<open>is_enterprise\<close>, \<^verbatim>\<open>validate_variant\<close>)\<close>

subsection \<open>String operations of the interpreter\<close>

text \<open>
  \<^verbatim>\<open>str.splitlines\<close> breaks at line feed, vertical tab, form feed, carriage return
  (one break for a carriage return followed by a line feed), the file, group and record
  separators, next line, and the line and paragraph separators; the breaks are not kept,
  and a break at the very end opens no further line.
\<close>

definition is_linebreak :: "nat \<Rightarrow> bool" where
  "is_linebreak c = (c \<in> {10, 11, 12, 13, 28, 29, 30, 133, 8232, 8233})"

fun splitlines_from :: "pystr \<Rightarrow> pystr \<Rightarrow> pystr list" where
  "splitlines_from cur [] = (if cur = [] then [] else [cur])"
| "splitlines_from cur [c] = (if is_linebreak c then [cur] else [cur @ [c]])"
| "splitlines_from cur (c # d # cs) =
     (if c = 13 \<and> d = 10 then cur # splitlines_from [] cs
      else if is_linebreak c then cur # splitlines_from [] (d # cs)
      else splitlines_from (cur @ [c]) (d # cs))"

definition splitlines :: "pystr \<Rightarrow> pystr list" where
  "splitlines s = splitlines_from [] s"

fun startswith :: "pystr \<Rightarrow> pystr \<Rightarrow> bool" where
  "startswith s [] = True"
| "startswith [] (p # ps) = False"
| "startswith (c # cs) (p # ps) = (c = p \<and> startswith cs ps)"

fun contains :: "pystr \<Rightarrow> pystr \<Rightarrow> bool" where
  "contains [] sub = (sub = [])"
| "contains (c # cs) sub = (startswith (c # cs) sub \<or> contains cs sub)"

text \<open>\<^verbatim>\<open>bytes.decode()\<close>: strict UTF-8.\<close>

definition cont :: "nat \<Rightarrow> bool" where
  "cont b = (128 \<le> b \<and> b \<le> 191)"

fun utf8_decode :: "pybytes \<Rightarrow> pystr option" where
  "utf8_decode [] = Some []"
| "utf8_decode (b # bs) =
     (if b < 128 then map_option ((#) b) (utf8_decode bs)
      else if 194 \<le> b \<and> b \<le> 223 then
        (case bs of
           c1 # r \<Rightarrow>
             if cont c1 then map_option ((#) ((b - 192) * 64 + (c1 - 128))) (utf8_decode r)
             else None
         | _ \<Rightarrow> None)
      else if 224 \<le> b \<and> b \<le> 239 then
        (case bs of
           c1 # c2 # r \<Rightarrow>
             if cont c1 \<and> cont c2 \<and> (b = 224 \<longrightarrow> 160 \<le> c1) \<and> (b = 237 \<longrightarrow> c1 \<le> 159) then
               map_option ((#) ((b - 224) * 4096 + (c1 - 128) * 64 + (c2 - 128)))
                 (utf8_decode r)
             else None
         | _ \<Rightarrow> None)
      else if 240 \<le> b \<and> b \<le> 244 then
        (case bs of
           c1 # c2 # c3 # r \<Rightarrow>
             if cont c1 \<and> cont c2 \<and> cont c3 \<and> (b = 240 \<longrightarrow> 144 \<le> c1)
                \<and> (b = 244 \<longrightarrow> c1 \<le> 143) then
               map_option
                 ((#) ((b - 240) * 262144 + (c1 - 128) * 4096 + (c2 - 128) * 64 + (c3 - 128)))
                 (utf8_decode r)
             else None
         | _ \<Rightarrow> None)
      else None)"

definition decode :: "pybytes \<Rightarrow> error + pystr" where
  "decode bs = (case utf8_decode bs of None \<Rightarrow> Inl UnicodeDecodeError | Some s \<Rightarrow> Inr s)"

subsection \<open>JSON values\<close>

text \<open>
  What \<^verbatim>\<open>json.loads\<close> returns: an object keeps its pairs in the order of the document,
  and subscripting reads the last pair of a key, as the \<^verbatim>\<open>dict\<close> built from the pairs
  does. A float is kept as its lexeme. Subscripting anything but an object with a string
  raises \<^verbatim>\<open>TypeError\<close>.
\<close>

datatype json =
    JNull
  | JBool bool
  | JInt int
  | JFloat pystr
  | JString pystr
  | JArray "json list"
  | JObject "(pystr \<times> json) list"

fun getitem :: "json \<Rightarrow> pystr \<Rightarrow> error + json" where
  "getitem (JObject pairs) k =
     (case map_of (rev pairs) k of
        None \<Rightarrow> Inl (KeyError (Key_str k))
      | Some v \<Rightarrow> Inr v)"
| "getitem j k = Inl TypeError"

subsection \<open>The JSON decoder\<close>

text \<open>
  \<^verbatim>\<open>json.loads\<close> belongs to the interpreter's library. The program below takes the
  decoder as a parameter \<open>loads\<close>, so what is proved of it holds whatever the decoder
  returns; \<open>json_loads\<close> is a model of the library's decoder (its scanner for strings,
  numbers, constants, objects and arrays, in strict mode), used where a statement is
  evaluated on a concrete document. The first argument of \<open>scan_once\<close> bounds the depth
  of the calls, as the interpreter's recursion limit does; the decoder starts it at the
  length of the document plus one.
\<close>

definition is_ws :: "nat \<Rightarrow> bool" where
  "is_ws c = (c \<in> {32, 9, 10, 13})"

definition skip_ws :: "pystr \<Rightarrow> pystr" where
  "skip_ws s = dropWhile is_ws s"

definition is_digit :: "nat \<Rightarrow> bool" where
  "is_digit c = (48 \<le> c \<and> c \<le> 57)"

definition hex_digit :: "nat \<Rightarrow> nat option" where
  "hex_digit c =
     (if 48 \<le> c \<and> c \<le> 57 then Some (c - 48)
      else if 97 \<le> c \<and> c \<le> 102 then Some (c - 87)
      else if 65 \<le> c \<and> c \<le> 70 then Some (c - 55)
      else None)"

definition decode_uXXXX :: "pystr \<Rightarrow> (nat \<times> pystr) option" where
  "decode_uXXXX s =
     (case s of
        a # b # c # d # r \<Rightarrow>
          (case (hex_digit a, hex_digit b, hex_digit c, hex_digit d) of
             (Some x, Some y, Some z, Some w) \<Rightarrow> Some (((x * 16 + y) * 16 + z) * 16 + w, r)
           | _ \<Rightarrow> None)
      | _ \<Rightarrow> None)"

definition backslash :: "nat \<rightharpoonup> nat" where
  "backslash =
     [34 \<mapsto> 34, 92 \<mapsto> 92, 47 \<mapsto> 47, 98 \<mapsto> 8, 102 \<mapsto> 12, 110 \<mapsto> 10, 114 \<mapsto> 13,
      116 \<mapsto> 9]"

definition append_char :: "nat \<Rightarrow> (pystr \<times> pystr) option \<Rightarrow> (pystr \<times> pystr) option" where
  "append_char c res = map_option (\<lambda>(chunks, r). (c # chunks, r)) res"

lemma decode_uXXXX_length:
  "decode_uXXXX s = Some (u, r) \<Longrightarrow> length r < length s"
  by (auto simp: decode_uXXXX_def split: list.splits option.splits)

function scanstring :: "pystr \<Rightarrow> (pystr \<times> pystr) option" where
  "scanstring [] = None"
| "scanstring (c # cs) =
     (if c = 34 then Some ([], cs)
      else if c < 32 then None
      else if c \<noteq> 92 then append_char c (scanstring cs)
      else
        (case cs of
           [] \<Rightarrow> None
         | esc # r \<Rightarrow>
             if esc \<noteq> 117 then
               (case backslash esc of
                  None \<Rightarrow> None
                | Some ch \<Rightarrow> append_char ch (scanstring r))
             else
               (case decode_uXXXX r of
                  None \<Rightarrow> None
                | Some (uni, r1) \<Rightarrow>
                    if 55296 \<le> uni \<and> uni \<le> 56319 \<and> startswith r1 [92, 117] then
                      (case decode_uXXXX (drop 2 r1) of
                         None \<Rightarrow> None
                       | Some (uni2, r2) \<Rightarrow>
                           if 56320 \<le> uni2 \<and> uni2 \<le> 57343 then
                             append_char (65536 + ((uni - 55296) * 1024 + (uni2 - 56320)))
                               (scanstring r2)
                           else append_char uni (scanstring r1))
                    else append_char uni (scanstring r1))))"
  by pat_completeness auto
termination
  by (relation "measure length") (auto dest!: decode_uXXXX_length)

definition int_of_digits :: "pystr \<Rightarrow> int" where
  "int_of_digits ds = foldl (\<lambda>a d. 10 * a + int (d - 48)) 0 ds"

definition match_integer :: "pystr \<Rightarrow> (bool \<times> pystr \<times> pystr) option" where
  "match_integer s =
     (let neg = (case s of c # r \<Rightarrow> c = 45 | [] \<Rightarrow> False);
          r = (if neg then tl s else s)
      in case r of
           [] \<Rightarrow> None
         | c # cs \<Rightarrow>
             if c = 48 then Some (neg, [c], cs)
             else if 49 \<le> c \<and> c \<le> 57 then
               Some (neg, c # takeWhile is_digit cs, dropWhile is_digit cs)
             else None)"

definition match_frac :: "pystr \<Rightarrow> pystr \<times> pystr" where
  "match_frac s =
     (case s of
        p # d # r \<Rightarrow>
          if p = 46 \<and> is_digit d then (p # d # takeWhile is_digit r, dropWhile is_digit r)
          else ([], s)
      | _ \<Rightarrow> ([], s))"

definition match_exp :: "pystr \<Rightarrow> pystr \<times> pystr" where
  "match_exp s =
     (case s of
        e # r \<Rightarrow>
          if e = 101 \<or> e = 69 then
            (let sg = (case r of c # r1 \<Rightarrow> if c = 45 \<or> c = 43 then [c] else [] | [] \<Rightarrow> []);
                 r2 = drop (length sg) r;
                 ds = takeWhile is_digit r2
             in if ds = [] then ([], s) else (e # sg @ ds, dropWhile is_digit r2))
          else ([], s)
      | [] \<Rightarrow> ([], s))"

definition match_number :: "pystr \<Rightarrow> (json \<times> pystr) option" where
  "match_number s =
     (case match_integer s of
        None \<Rightarrow> None
      | Some (neg, integer, r) \<Rightarrow>
          (let (frac, r1) = match_frac r;
               (ex, r2) = match_exp r1
           in if frac \<noteq> [] \<or> ex \<noteq> [] then
                Some (JFloat ((if neg then [45] else []) @ integer @ frac @ ex), r2)
              else
                Some (JInt (if neg then - int_of_digits integer else int_of_digits integer), r2)))"

fun scan_once :: "nat \<Rightarrow> pystr \<Rightarrow> (json \<times> pystr) option"
  and JSONObject :: "nat \<Rightarrow> (pystr \<times> json) list \<Rightarrow> pystr \<Rightarrow> (json \<times> pystr) option"
  and JSONArray :: "nat \<Rightarrow> json list \<Rightarrow> pystr \<Rightarrow> (json \<times> pystr) option" where
  "scan_once 0 s = None"
| "scan_once (Suc n) [] = None"
| "scan_once (Suc n) (c # cs) =
     (if c = 34 then map_option (\<lambda>(str, r). (JString str, r)) (scanstring cs)
      else if c = 123 then
        (case skip_ws cs of
           [] \<Rightarrow> None
         | d # r \<Rightarrow>
             if d = 125 then Some (JObject [], r)
             else if d = 34 then JSONObject n [] r
             else None)
      else if c = 91 then
        (case skip_ws cs of
           [] \<Rightarrow> None
         | d # r \<Rightarrow> if d = 93 then Some (JArray [], r) else JSONArray n [] (d # r))
      else if startswith (c # cs) (lit ''null'') then Some (JNull, drop 4 (c # cs))
      else if startswith (c # cs) (lit ''true'') then Some (JBool True, drop 4 (c # cs))
      else if startswith (c # cs) (lit ''false'') then Some (JBool False, drop 5 (c # cs))
      else
        (case match_number (c # cs) of
           Some res \<Rightarrow> Some res
         | None \<Rightarrow>
             if startswith (c # cs) (lit ''NaN'') then Some (JFloat (lit ''NaN''), drop 3 (c # cs))
             else if startswith (c # cs) (lit ''Infinity'') then
               Some (JFloat (lit ''Infinity''), drop 8 (c # cs))
             else if startswith (c # cs) (lit ''-Infinity'') then
               Some (JFloat (lit ''-Infinity''), drop 9 (c # cs))
             else None))"
| "JSONObject 0 pairs s = None"
| "JSONObject (Suc n) pairs s =
     (case scanstring s of
        None \<Rightarrow> None
      | Some (k, r) \<Rightarrow>
          (case skip_ws r of
             [] \<Rightarrow> None
           | colon # r1 \<Rightarrow>
               if colon \<noteq> 58 then None
               else
                 (case scan_once n (skip_ws r1) of
                    None \<Rightarrow> None
                  | Some (v, r2) \<Rightarrow>
                      (case skip_ws r2 of
                         [] \<Rightarrow> None
                       | nextchar # r3 \<Rightarrow>
                           if nextchar = 125 then Some (JObject (pairs @ [(k, v)]), r3)
                           else if nextchar \<noteq> 44 then None
                           else
                             (case skip_ws r3 of
                                [] \<Rightarrow> None
                              | q # r4 \<Rightarrow>
                                  if q = 34 then JSONObject n (pairs @ [(k, v)]) r4
                                  else None)))))"
| "JSONArray 0 vals s = None"
| "JSONArray (Suc n) vals s =
     (case scan_once n s of
        None \<Rightarrow> None
      | Some (v, r) \<Rightarrow>
          (case skip_ws r of
             [] \<Rightarrow> None
           | nextchar # r1 \<Rightarrow>
               if nextchar = 93 then Some (JArray (vals @ [v]), r1)
               else if nextchar \<noteq> 44 then None
               else JSONArray n (vals @ [v]) (skip_ws r1)))"

definition json_loads :: "pystr \<Rightarrow> error + json" where
  "json_loads s =
     (case scan_once (Suc (length s)) (skip_ws s) of
        None \<Rightarrow> Inl JSONDecodeError
      | Some (obj, r) \<Rightarrow> if skip_ws r = [] then Inr obj else Inl JSONDecodeError)"

subsection \<open>The process and the file system\<close>

record completed_process =
  returncode :: int
  stdout :: pybytes
  stderr :: pybytes

text \<open>
  What lies outside the program: the temporary directory, the random name, path
  resolution, and the shell that runs a command in a working directory.
\<close>

record environment =
  gettempdir :: pypath
  uuid4_hex :: pystr
  resolve :: "pystr \<Rightarrow> pypath"
  shell :: "pystr list \<Rightarrow> pystr \<Rightarrow> completed_process"

datatype echoed = Echo_str pystr | Echo_bytes pybytes

record os_state =
  dirs :: "pypath list"
  console :: "echoed list"

definition check_output :: "environment \<Rightarrow> pystr list \<Rightarrow> pystr \<Rightarrow> error + pybytes" where
  "check_output env args cwd =
     (let p = shell env args cwd in
      if returncode p \<noteq> 0 then Inl (CalledProcessError (returncode p) (stderr p))
      else Inr (stdout p))"

definition mkdir :: "pypath \<Rightarrow> os_state \<Rightarrow> error + os_state" where
  "mkdir p s =
     (if p \<in> set (dirs s) then Inl (FileExistsError p)
      else if butlast p \<notin> set (dirs s) then Inl (FileNotFoundError p)
      else Inr (s\<lparr>dirs := p # dirs s\<rparr>))"

definition rmtree :: "pypath \<Rightarrow> os_state \<Rightarrow> os_state" where
  "rmtree p s = s\<lparr>dirs := filter (\<lambda>q. \<not> prefix p q) (dirs s)\<rparr>"

definition echo :: "echoed \<Rightarrow> os_state \<Rightarrow> os_state" where
  "echo x s = s\<lparr>console := console s @ [x]\<rparr>"

subsection \<open>The program\<close>

definition kept_line :: "pystr \<Rightarrow> bool" where
  "kept_line line =
     (\<not> startswith line (lit ''Extracting image'')
      \<and> \<not> startswith line (lit ''Loaded image'') \<and> \<not> contains line (lit ''.tar''))"

definition filtered_text :: "pystr \<Rightarrow> pystr" where
  "filtered_text result = join (lit '' '') (filter kept_line (splitlines result))"

text \<open>
  Lines 28 to 38 of \<^verbatim>\<open>_utils.py\<close>, the part of \<^verbatim>\<open>is_enterprise\<close> from the decoded
  output to the result; \<open>loads\<close> is \<^verbatim>\<open>json.loads\<close>.
\<close>

definition is_enterprise_of_output :: "(pystr \<Rightarrow> error + json) \<Rightarrow> pystr \<Rightarrow> error + bool" where
  "is_enterprise_of_output loads result =
     (case loads (filtered_text result) of
        Inl e \<Rightarrow> Inl e
      | Inr version_info \<Rightarrow>
          (case getitem version_info (lit ''variant'') of
             Inl e \<Rightarrow> Inl e
           | Inr variant \<Rightarrow> Inr (variant = JString (lit ''ee''))))"

definition get_version_args :: "pypath \<Rightarrow> pystr list" where
  \<open>get_version_args build_artifact =
     [lit ''bash'', lit ''"'' @ str_path build_artifact @ lit ''"'', lit ''--version'']\<close>

definition is_enterprise ::
  "(pystr \<Rightarrow> error + json) \<Rightarrow> environment \<Rightarrow> pypath \<Rightarrow> pypath \<Rightarrow> os_state
     \<Rightarrow> (error + bool) \<times> os_state" where
  "is_enterprise loads env build_artifact wdir s =
     (case check_output env (get_version_args build_artifact) (str_path wdir) of
        Inl e \<Rightarrow> (Inl e, s)
      | Inr out \<Rightarrow>
          (case decode out of
             Inl e \<Rightarrow> (Inl e, s)
           | Inr result \<Rightarrow> (is_enterprise_of_output loads result, s)))"

definition doctor_message :: pystr where
  "doctor_message = lit ''Try '' @ [96] @ lit ''dcos-docker doctor'' @ [96] @
     lit '' for troubleshooting help.''"

text \<open>
  \<^verbatim>\<open>validate_variant\<close>: the handler of the \<^verbatim>\<open>try\<close> catches
  \<^verbatim>\<open>subprocess.CalledProcessError\<close> only; any other exception of \<^verbatim>\<open>is_enterprise\<close>
  leaves the function at once.
\<close>

definition validate_variant ::
  "(pystr \<Rightarrow> error + json) \<Rightarrow> environment \<Rightarrow> params \<Rightarrow> pystr \<Rightarrow> os_state
     \<Rightarrow> (error + pystr) \<times> os_state" where
  "validate_variant loads env ctx_params value s =
     (if value \<noteq> lit ''auto'' then (Inr value, s)
      else
        (let artifact_path = resolve env (artifact ctx_params);
             base_workspace_dir =
               (case workspace_dir ctx_params of Some p \<Rightarrow> p | None \<Rightarrow> gettempdir env);
             wdir = div_path base_workspace_dir (uuid4_hex env)
         in case mkdir wdir s of
              Inl e \<Rightarrow> (Inl e, s)
            | Inr s1 \<Rightarrow>
                (case is_enterprise loads env artifact_path wdir s1 of
                   (Inl (CalledProcessError rc err), s2) \<Rightarrow>
                     (Inl (CalledProcessError rc err),
                      echo (Echo_bytes err) (echo (Echo_str (lit ''Original error:''))
                        (echo (Echo_str []) (echo (Echo_str doctor_message)
                          (rmtree wdir s2)))))
                 | (Inl e, s2) \<Rightarrow> (Inl e, s2)
                 | (Inr enterprise, s2) \<Rightarrow>
                     (Inr (if enterprise then lit ''enterprise'' else lit ''oss''),
                      rmtree wdir s2))))"

text \<open>The workspace directory that \<^verbatim>\<open>validate_variant\<close> creates.\<close>

definition workspace_of :: "environment \<Rightarrow> params \<Rightarrow> pypath" where
  "workspace_of env ctx_params =
     div_path (case workspace_dir ctx_params of Some p \<Rightarrow> p | None \<Rightarrow> gettempdir env)
       (uuid4_hex env)"

text \<open>
  The spec's \<open>MalformedVersionReport\<close>: the exceptions with which lines 36 and 37 of
  \<^verbatim>\<open>_utils.py\<close> fail, \<^verbatim>\<open>json.JSONDecodeError\<close> for text that is not JSON,
  \<^verbatim>\<open>KeyError\<close> for an object without the key \<^verbatim>\<open>variant\<close>, and \<^verbatim>\<open>TypeError\<close> for
  a JSON value that is not an object.
\<close>

definition MalformedVersionReport :: "error \<Rightarrow> bool" where
  "MalformedVersionReport e =
     (e = JSONDecodeError \<or> e = KeyError (Key_str (lit ''variant'')) \<or> e = TypeError)"

section \<open>Concrete inputs\<close>

text \<open>
  A daemon with an empty store in which every build step succeeds (the image built is
  the request itself), and the directory of the package.
\<close>

definition always_builds :: "build_request builder" where
  "always_builds req store = Some req"

definition empty_docker :: "build_request docker" where
  "empty_docker = \<lparr>images = Map.empty, build_steps = []\<rparr>"

definition package_dir :: pypath where
  "package_dir = [lit ''/'', lit ''pkg'']"

text \<open>
  A cluster with one master (the node made of a container is its IP address and its
  container id), the same cluster with the master's container named \<^verbatim>\<open>Master_0\<close>, the
  parameters of a command on that cluster, an interpreter whose \<^verbatim>\<open>str.upper\<close> leaves
  code points beyond ASCII alone, and an iteration order.
\<close>

definition master_0 :: container where
  "master_0 =
     \<lparr>e2e_reference = lit ''master_0'', ip_address = lit ''10.0.0.5'',
      docker_container_name = lit ''dcos-e2e-c1-master-0'',
      docker_container_id = lit ''abc123''\<rparr>"

definition one_master :: "pystr \<Rightarrow> (pystr \<times> pystr) ClusterContainers" where
  "one_master cid =
     \<lparr>masters = [master_0], agents = [], public_agents = [],
      to_node = (\<lambda>c. (ip_address c, docker_container_id c))\<rparr>"

definition master_named :: container where
  "master_named = master_0\<lparr>docker_container_name := lit ''Master_0''\<rparr>"

definition one_master_named :: "pystr \<Rightarrow> (pystr \<times> pystr) ClusterContainers" where
  "one_master_named cid =
     \<lparr>masters = [master_named], agents = [], public_agents = [],
      to_node = (\<lambda>c. (ip_address c, docker_container_id c))\<rparr>"

definition cluster_params :: params where
  "cluster_params = \<lparr>cluster_id = lit ''c1'', artifact = lit ''dcos.sh'', workspace_dir = None\<rparr>"

definition ascii_upper :: "nat \<Rightarrow> pystr" where
  "ascii_upper c = [c]"

definition no_rank :: "container \<Rightarrow> nat" where
  "no_rank c = 0"

text \<open>
  An environment whose shell exits with a given status and output, a file system with
  the temporary directory, and three outputs of an artifact: an enterprise one and an
  open-source one, each after two lines of noise, and one that is noise only.
\<close>

definition env_of_output :: "int \<Rightarrow> pybytes \<Rightarrow> environment" where
  "env_of_output rc out =
     \<lparr>gettempdir = [lit ''/'', lit ''tmp''], uuid4_hex = lit ''0123abcd'',
      resolve = (\<lambda>p. [lit ''/'', p]),
      shell = (\<lambda>args cwd. \<lparr>returncode = rc, stdout = out, stderr = lit ''boom''\<rparr>)\<rparr>"

definition state0 :: os_state where
  "state0 = \<lparr>dirs = [[lit ''/''], [lit ''/'', lit ''tmp'']], console = []\<rparr>"

definition ee_output :: pybytes where
  \<open>ee_output =
     lit ''Extracting image sha256:0f3a'' @ [10] @ lit ''Loaded image: foo.tar'' @ [10] @
     lit ''{"variant": "ee", "version": "1.11.0"}'' @ [10]\<close>

definition oss_output :: pybytes where
  \<open>oss_output =
     lit ''Extracting image sha256:0f3a'' @ [10] @ lit ''Loaded image: foo.tar'' @ [10] @
     lit ''{"variant": "oss", "version": "1.11.0"}'' @ [10]\<close>


definition artifact_path :: pypath where
  "artifact_path = [lit ''/'', lit ''dcos.sh'']"

definition workspace :: pypath where
  "workspace = [lit ''/'', lit ''tmp'', lit ''0123abcd'']"

section \<open>Properties of the image build\<close>

lemma base_tag_neq: "tag @ lit '':base'' \<noteq> tag"
  by (simp add: lit_def)

text \<open>
  C2. A distribution outside \<open>dcos_docker_distros\<close> makes \<^verbatim>\<open>build_docker_image\<close> fail
  with the lookup's \<open>KeyError\<close> for that distribution (the spec's
  \<open>UnsupportedDistribution\<close>) inside \<^verbatim>\<open>_base_dockerfile\<close>, before any build step: the
  daemon is returned as it was, so no step has run and neither tag has been created or
  overwritten.
\<close>

theorem build_unknown_distribution:
  "dcos_docker_distros linux_distribution = None \<Longrightarrow>
   build_docker_image bld current_parent tag linux_distribution docker_version client
     = (Inl (UnsupportedDistribution linux_distribution), client)"
  by (simp add: build_docker_image_def base_dockerfile_def UnsupportedDistribution_def)

theorem build_unknown_distribution_witness:
  "dcos_docker_distros RHEL_7 = None \<and>
   build_docker_image always_builds package_dir (lit ''node'') RHEL_7 v1_13_1 empty_docker
     = (Inl (UnsupportedDistribution RHEL_7), empty_docker)"
  using build_unknown_distribution
    [of RHEL_7 always_builds package_dir "lit ''node''" v1_13_1 empty_docker]
  by (simp add: dcos_docker_distros_def)

text \<open>
  C1, as stated, fails. The version lookup \<^verbatim>\<open>docker_versions[docker_version]\<close> is an
  argument of the second call of \<^verbatim>\<open>client.images.build\<close>, so it is evaluated after
  the first build step: with CentOS 7 and a version outside the mapping, on an empty store
  whose build steps succeed, the base-layer tag exists afterwards.
\<close>

theorem build_unknown_version_counterexample:
  "docker_versions (DockerVersion_other (lit ''v18'')) = None \<and>
   dcos_docker_distros CENTOS_7 = Some (lit ''centos-7'') \<and>
   images (snd (build_docker_image always_builds package_dir (lit ''node'') CENTOS_7
      (DockerVersion_other (lit ''v18'')) empty_docker)) (lit ''node:base'')
     \<noteq> images empty_docker (lit ''node:base'')"
  by (simp add: docker_versions_def dcos_docker_distros_def build_docker_image_def
      base_dockerfile_def images_build_def always_builds_def empty_docker_def
      base_request_def lit_def Let_def)

text \<open>
  C1, amended. For a version outside \<open>docker_versions\<close> and a distribution inside
  \<open>dcos_docker_distros\<close>, \<^verbatim>\<open>build_docker_image\<close> always fails and never creates or
  overwrites the runtime-layer tag, but the base-layer step runs first. When that step
  succeeds the base-layer tag is created or overwritten and the failure is the lookup's
  \<open>KeyError\<close> for the version (the spec's \<open>UnsupportedRuntimeVersion\<close>); when it fails
  the failure is the build error and the store is unchanged.
\<close>

theorem build_unknown_version:
  assumes ver: "docker_versions docker_version = None"
    and dist: "dcos_docker_distros linux_distribution = Some segment"
    and run: "build_docker_image bld current_parent tag linux_distribution docker_version
                client = (r, client')"
  shows "let base = \<lparr>req_path = str_path (current_parent @
                 [lit ''resources'', lit ''dockerfiles'', lit ''base'', segment]),
               req_rm = True, req_forcerm = True, req_tag = tag @ lit '':base'',
               req_buildargs = []\<rparr>
         in (\<exists>e. r = Inl e) \<and> images client' tag = images client tag \<and>
            (case bld base (images client) of
               Some img \<Rightarrow>
                 r = Inl (UnsupportedRuntimeVersion docker_version) \<and>
                 build_steps client' = build_steps client @ [base] \<and>
                 images client' = (images client)(tag @ lit '':base'' \<mapsto> img)
             | None \<Rightarrow>
                 r = Inl (BuildError base) \<and>
                 build_steps client' = build_steps client @ [base] \<and>
                 images client' = images client)"
  using assms base_tag_neq [of tag]
  by (auto simp: build_docker_image_def base_dockerfile_def images_build_def Let_def
      UnsupportedRuntimeVersion_def base_request_def div_path_def split: option.splits)

theorem build_unknown_version_witness:
  "docker_versions (DockerVersion_other (lit ''v18'')) = None \<and>
   dcos_docker_distros CENTOS_7 = Some (lit ''centos-7'') \<and>
   (let r = fst (build_docker_image always_builds package_dir (lit ''node'') CENTOS_7
              (DockerVersion_other (lit ''v18'')) empty_docker);
        client' = snd (build_docker_image always_builds package_dir (lit ''node'') CENTOS_7
              (DockerVersion_other (lit ''v18'')) empty_docker)
    in r = Inl (UnsupportedRuntimeVersion (DockerVersion_other (lit ''v18''))) \<and>
       images client' (lit ''node'') = None \<and>
       images client' (lit ''node:base'') \<noteq> None \<and>
       map req_tag (build_steps client') = [lit ''node:base''])"
  using build_unknown_version
    [of "DockerVersion_other (lit ''v18'')" CENTOS_7 "lit ''centos-7''" always_builds
        package_dir "lit ''node''" empty_docker
        "fst (build_docker_image always_builds package_dir (lit ''node'') CENTOS_7
              (DockerVersion_other (lit ''v18'')) empty_docker)"
        "snd (build_docker_image always_builds package_dir (lit ''node'') CENTOS_7
              (DockerVersion_other (lit ''v18'')) empty_docker)"]
  by (simp add: docker_versions_def dcos_docker_distros_def
      always_builds_def empty_docker_def Let_def lit_def)

text \<open>
  C3. For a distribution and a version inside the two mappings, \<^verbatim>\<open>build_docker_image\<close>
  runs the base-layer step first, from the directory \<^verbatim>\<open>resources/dockerfiles/base\<close>
  of the distribution's segment, tagged with the caller's tag followed by \<^verbatim>\<open>:base\<close>,
  and then the runtime-layer step from the fixed directory
  \<^verbatim>\<open>resources/dockerfiles/base-docker\<close>, tagged with the caller's tag, with the
  version string as the build argument \<^verbatim>\<open>DOCKER_VERSION\<close>; both steps force the removal
  of intermediate containers, and the two tags differ. The second step is issued once the
  first has returned (a failing first step raises before it), so a call that returns has
  run exactly these two steps, in this order, and both tags then exist.
\<close>

theorem build_two_steps:
  assumes dist: "dcos_docker_distros linux_distribution = Some segment"
    and ver: "docker_versions docker_version = Some version"
    and run: "build_docker_image bld current_parent tag linux_distribution docker_version
                client = (r, client')"
  shows "let base = \<lparr>req_path = str_path (current_parent @
                 [lit ''resources'', lit ''dockerfiles'', lit ''base'', segment]),
               req_rm = True, req_forcerm = True, req_tag = tag @ lit '':base'',
               req_buildargs = []\<rparr>;
             runtime = \<lparr>req_path = str_path (current_parent @
                 [lit ''resources'', lit ''dockerfiles'', lit ''base-docker'']),
               req_rm = True, req_forcerm = True, req_tag = tag,
               req_buildargs = [(lit ''DOCKER_VERSION'', version)]\<rparr>
         in req_tag base \<noteq> req_tag runtime \<and>
            build_steps client' = build_steps client @
              (if bld base (images client) = None then [base] else [base, runtime]) \<and>
            (r = Inr () \<longrightarrow>
               build_steps client' = build_steps client @ [base, runtime] \<and>
               images client' (req_tag base) \<noteq> None \<and>
               images client' (req_tag runtime) \<noteq> None \<and>
               (\<forall>t. t \<noteq> req_tag base \<and> t \<noteq> req_tag runtime \<longrightarrow>
                  images client' t = images client t))"
  using assms base_tag_neq [of tag]
  by (auto simp: build_docker_image_def base_dockerfile_def docker_dockerfile_def
      images_build_def Let_def base_request_def docker_request_def div_path_def
      split: option.splits)

theorem build_two_steps_witness:
  "dcos_docker_distros COREOS = Some (lit ''coreos'') \<and>
   docker_versions v17_12_1_ce = Some (lit ''17.12.1-ce'') \<and>
   fst (build_docker_image always_builds package_dir (lit ''node'') COREOS v17_12_1_ce
          empty_docker) = Inr () \<and>
   map req_tag (build_steps (snd (build_docker_image always_builds package_dir (lit ''node'')
          COREOS v17_12_1_ce empty_docker))) = [lit ''node:base'', lit ''node''] \<and>
   map req_buildargs (build_steps (snd (build_docker_image always_builds package_dir
          (lit ''node'') COREOS v17_12_1_ce empty_docker)))
     = [[], [(lit ''DOCKER_VERSION'', lit ''17.12.1-ce'')]]"
  using build_two_steps
    [of COREOS "lit ''coreos''" v17_12_1_ce "lit ''17.12.1-ce''" always_builds package_dir
        "lit ''node''" empty_docker
        "fst (build_docker_image always_builds package_dir (lit ''node'') COREOS v17_12_1_ce
              empty_docker)"
        "snd (build_docker_image always_builds package_dir (lit ''node'') COREOS v17_12_1_ce
              empty_docker)"]
  by (simp add: docker_versions_def dcos_docker_distros_def always_builds_def
      empty_docker_def Let_def lit_def build_docker_image_def base_dockerfile_def
      images_build_def split: if_splits)

section \<open>Properties of the node reference resolver\<close>

lemma set_set_iteration: "set (set_iteration rank xs) = set xs"
  by (simp add: set_iteration_def)

lemma distinct_set_iteration: "distinct (set_iteration rank xs)"
  by (simp add: set_iteration_def)

text \<open>
  Every duplicate-free enumeration of the collected containers is the iteration order of
  some ranking, so the ranking restricts nothing.
\<close>

lemma position_nth:
  assumes "distinct ys" "i < length ys"
  shows "position ys (ys ! i) = i"
proof -
  have "takeWhile (\<lambda>x. x \<noteq> ys ! i) ys = take i ys"
    using assms by (intro takeWhile_eq_take_P_nth) (auto simp: nth_eq_iff_index_eq)
  with assms show ?thesis by (simp add: position_def)
qed

lemma map_position: "distinct ys \<Longrightarrow> map (position ys) ys = [0..<length ys]"
  by (rule nth_equalityI) (simp_all add: position_nth)

lemma inj_position: "distinct ys \<Longrightarrow> inj_on (position ys) (set ys)"
  by (rule inj_onI) (metis in_set_conv_nth position_nth)

lemma set_iteration_any_order:
  assumes "distinct ys" "set ys = set xs"
  shows "set_iteration (position ys) xs = ys"
proof -
  have "mset (remdups xs) = mset ys"
    using assms by (metis distinct_remdups_id set_eq_iff_mset_remdups_eq)
  moreover have "inj_on (position ys) (set (remdups xs))"
    using inj_position [OF assms(1)] assms(2) by simp
  moreover have "sorted (map (position ys) ys)"
    using assms by (simp add: map_position)
  ultimately show ?thesis
    unfolding set_iteration_def by (rule sort_key_inj_key_eq)
qed

lemma first_accepting_None:
  "first_accepting U v cs = None \<longleftrightarrow> (\<forall>c\<in>set cs. v \<notin> set (accepted U c))"
  by (induction cs) auto

lemma first_accepting_first:
  "(\<forall>x\<in>set pre. v \<notin> set (accepted U x)) \<Longrightarrow> v \<in> set (accepted U c)
     \<Longrightarrow> first_accepting U v (pre @ c # post) = Some c"
  by (induction pre) auto

lemma first_accepting_Some:
  "first_accepting U v cs = Some c \<Longrightarrow>
     \<exists>pre post. cs = pre @ c # post \<and> (\<forall>x\<in>set pre. v \<notin> set (accepted U x))
        \<and> v \<in> set (accepted U c)"
proof (induction cs)
  case Nil
  then show ?case by simp
next
  case (Cons a cs)
  show ?case
  proof (cases "v \<in> set (accepted U a)")
    case True
    with Cons.prems have "a = c" by simp
    with True have "a # cs = [] @ c # cs \<and> (\<forall>x\<in>set []. v \<notin> set (accepted U x))
        \<and> v \<in> set (accepted U c)" by simp
    then show ?thesis by blast
  next
    case False
    with Cons.prems have "first_accepting U v cs = Some c" by simp
    from Cons.IH [OF this] obtain pre post where
      "cs = pre @ c # post" "\<forall>x\<in>set pre. v \<notin> set (accepted U x)" "v \<in> set (accepted U c)"
      by blast
    with False have "a # cs = (a # pre) @ c # post \<and>
        (\<forall>x\<in>set (a # pre). v \<notin> set (accepted U x)) \<and> v \<in> set (accepted U c)" by simp
    then show ?thesis by blast
  qed
qed

lemma upper_master_0: "upper U (lit ''master_0'') = lit ''MASTER_0''"
  by (simp add: upper_def upper_cp_def lit_def)

lemma sublist_fourth: "sublist v (a @ b @ c @ v @ d)"
proof -
  have "a @ b @ c @ v @ d = (a @ b @ c) @ v @ d" by simp
  then show ?thesis by (simp only: sublist_appendI)
qed

text \<open>
  C6. The strings that \<^verbatim>\<open>validate_node_reference\<close> accepts for a container are exactly
  its reference, its reference upper-cased, its IP address, its container name and its
  container id. The function returns the node of the first container, in the order in
  which the set of containers is iterated, whose accepted strings contain the given
  reference, and whenever it returns a node it is that one. In particular, in a cluster
  whose only container is a master with the reference \<^verbatim>\<open>master_0\<close>, the references
  \<^verbatim>\<open>master_0\<close> and \<^verbatim>\<open>MASTER_0\<close>, the IP address and the container id all give the
  node of that master.
\<close>

theorem resolve_first_accepting:
  "set (accepted U c) =
     {e2e_reference c, upper U (e2e_reference c), ip_address c, docker_container_name c,
      docker_container_id c} \<and>
   (let cc = find_cluster (cluster_id ctx_params);
        containers = set_iteration rank (masters cc @ agents cc @ public_agents cc)
    in (\<forall>pre post. containers = pre @ c # post \<and> (\<forall>x\<in>set pre. v \<notin> set (accepted U x))
            \<and> v \<in> set (accepted U c)
          \<longrightarrow> validate_node_reference U rank find_cluster ctx_params v = Inr (to_node cc c)) \<and>
       (\<forall>n. validate_node_reference U rank find_cluster ctx_params v = Inr n
          \<longrightarrow> (\<exists>pre x post. containers = pre @ x # post
                \<and> (\<forall>y\<in>set pre. v \<notin> set (accepted U y)) \<and> v \<in> set (accepted U x)
                \<and> n = to_node cc x)) \<and>
       (masters cc = [m] \<and> agents cc = [] \<and> public_agents cc = []
          \<and> e2e_reference m = lit ''master_0''
          \<longrightarrow> (\<forall>r\<in>{lit ''master_0'', lit ''MASTER_0'', ip_address m, docker_container_id m}.
                validate_node_reference U rank find_cluster ctx_params r = Inr (to_node cc m))))"
proof -
  define cc where "cc = find_cluster (cluster_id ctx_params)"
  define containers where
    "containers = set_iteration rank (masters cc @ agents cc @ public_agents cc)"
  have run: "validate_node_reference U rank find_cluster ctx_params r =
      (case first_accepting U r containers of
         Some c \<Rightarrow> Inr (to_node cc c)
       | None \<Rightarrow> Inl (BadParameter (no_such_node_message (cluster_id ctx_params) r)))" for r
    unfolding validate_node_reference_def cc_def containers_def Let_def ..
  have a: "set (accepted U c) =
     {e2e_reference c, upper U (e2e_reference c), ip_address c, docker_container_name c,
      docker_container_id c}"
    by (simp add: accepted_def Let_def)
  have b: "validate_node_reference U rank find_cluster ctx_params v = Inr (to_node cc c)"
    if "containers = pre @ c # post" "\<forall>x\<in>set pre. v \<notin> set (accepted U x)"
       "v \<in> set (accepted U c)" for pre post
    using that by (simp add: run first_accepting_first)
  have c: "\<exists>pre x post. containers = pre @ x # post
                \<and> (\<forall>y\<in>set pre. v \<notin> set (accepted U y)) \<and> v \<in> set (accepted U x)
                \<and> n = to_node cc x"
    if "validate_node_reference U rank find_cluster ctx_params v = Inr n" for n
  proof -
    from that obtain x where x: "first_accepting U v containers = Some x" "n = to_node cc x"
      by (auto simp: run split: option.splits)
    from first_accepting_Some [OF x(1)] x(2) show ?thesis by blast
  qed
  have d: "validate_node_reference U rank find_cluster ctx_params r = Inr (to_node cc m)"
    if "masters cc = [m]" "agents cc = []" "public_agents cc = []"
       "e2e_reference m = lit ''master_0''"
       "r \<in> {lit ''master_0'', lit ''MASTER_0'', ip_address m, docker_container_id m}" for r
  proof -
    have "containers = [m]"
      using that by (simp add: containers_def set_iteration_def)
    moreover have "r \<in> set (accepted U m)"
      using that by (auto simp: accepted_def Let_def upper_master_0)
    ultimately show ?thesis by (simp add: run)
  qed
  show ?thesis
    unfolding Let_def cc_def [symmetric] containers_def [symmetric]
  proof (intro conjI allI impI ballI)
    show "set (accepted U c) =
     {e2e_reference c, upper U (e2e_reference c), ip_address c, docker_container_name c,
      docker_container_id c}" by (rule a)
  next
    fix pre post
    assume "containers = pre @ c # post \<and> (\<forall>x\<in>set pre. v \<notin> set (accepted U x))
            \<and> v \<in> set (accepted U c)"
    then show "validate_node_reference U rank find_cluster ctx_params v = Inr (to_node cc c)"
      using b by blast
  next
    fix n
    assume "validate_node_reference U rank find_cluster ctx_params v = Inr n"
    then show "\<exists>pre x post. containers = pre @ x # post
                \<and> (\<forall>y\<in>set pre. v \<notin> set (accepted U y)) \<and> v \<in> set (accepted U x)
                \<and> n = to_node cc x"
      by (rule c)
  next
    fix r
    assume "masters cc = [m] \<and> agents cc = [] \<and> public_agents cc = []
          \<and> e2e_reference m = lit ''master_0''"
      and "r \<in> {lit ''master_0'', lit ''MASTER_0'', ip_address m, docker_container_id m}"
    then show "validate_node_reference U rank find_cluster ctx_params r = Inr (to_node cc m)"
      using d by blast
  qed
qed

theorem resolve_first_accepting_witness:
  "validate_node_reference ascii_upper no_rank one_master cluster_params (lit ''master_0'')
     = Inr (lit ''10.0.0.5'', lit ''abc123'') \<and>
   validate_node_reference ascii_upper no_rank one_master cluster_params (lit ''MASTER_0'')
     = Inr (lit ''10.0.0.5'', lit ''abc123'') \<and>
   validate_node_reference ascii_upper no_rank one_master cluster_params (lit ''10.0.0.5'')
     = Inr (lit ''10.0.0.5'', lit ''abc123'') \<and>
   validate_node_reference ascii_upper no_rank one_master cluster_params (lit ''abc123'')
     = Inr (lit ''10.0.0.5'', lit ''abc123'')"
  using resolve_first_accepting
    [of ascii_upper master_0 one_master cluster_params no_rank "lit ''master_0''" master_0]
  by (simp add: Let_def one_master_def master_0_def)

text \<open>
  C7. When no container of the cluster, whatever its role, accepts the given reference,
  \<^verbatim>\<open>validate_node_reference\<close> returns no node: it raises \<^verbatim>\<open>click.BadParameter\<close>
  (the spec's \<open>NodeNotFound\<close>) with the message of the source, which contains the
  cluster id and the reference as given.
\<close>

theorem resolve_not_found:
  "let cc = find_cluster (cluster_id ctx_params) in
     (\<forall>c\<in>set (masters cc @ agents cc @ public_agents cc). v \<notin> set (accepted U c)) \<longrightarrow>
       validate_node_reference U rank find_cluster ctx_params v
         = Inl (BadParameter (no_such_node_message (cluster_id ctx_params) v)) \<and>
       sublist (cluster_id ctx_params) (no_such_node_message (cluster_id ctx_params) v) \<and>
       sublist v (no_such_node_message (cluster_id ctx_params) v)"
proof -
  define cc where "cc = find_cluster (cluster_id ctx_params)"
  have msg1: "sublist cid (no_such_node_message cid v)" for cid
    unfolding no_such_node_message_def by (rule sublist_appendI)
  have msg2: "sublist v (no_such_node_message cid v)" for cid
    unfolding no_such_node_message_def by (rule sublist_fourth)
  have "validate_node_reference U rank find_cluster ctx_params v
         = Inl (BadParameter (no_such_node_message (cluster_id ctx_params) v))"
    if "\<forall>c\<in>set (masters cc @ agents cc @ public_agents cc). v \<notin> set (accepted U c)"
  proof -
    from that have "first_accepting U v
        (set_iteration rank (masters cc @ agents cc @ public_agents cc)) = None"
      unfolding first_accepting_None set_set_iteration .
    then show ?thesis
      by (simp add: validate_node_reference_def cc_def Let_def)
  qed
  then show ?thesis
    unfolding Let_def cc_def [symmetric] using msg1 msg2 by (intro impI conjI)
qed

theorem resolve_not_found_witness:
  "lit ''master_1'' \<notin> set (accepted ascii_upper master_0) \<and>
   validate_node_reference ascii_upper no_rank one_master cluster_params (lit ''master_1'')
     = Inl (BadParameter (no_such_node_message (lit ''c1'') (lit ''master_1'')))"
  using resolve_not_found [of one_master cluster_params "lit ''master_1''" ascii_upper no_rank]
  by (simp add: Let_def one_master_def master_0_def cluster_params_def accepted_def
      upper_def upper_cp_def lit_def)

text \<open>
  C10, as stated, fails. A string that equals the reference of a container up to case
  and is neither that reference nor its upper-cased form can still be the name, the IP
  address or the id of a container, and is then accepted: with the master's container
  named \<^verbatim>\<open>Master_0\<close> and its reference \<^verbatim>\<open>master_0\<close>, the reference \<^verbatim>\<open>Master_0\<close>
  gives the node of the master.
\<close>

theorem resolve_case_variant_counterexample:
  "upper ascii_upper (lit ''Master_0'') = upper ascii_upper (e2e_reference master_named) \<and>
   lit ''Master_0'' \<noteq> e2e_reference master_named \<and>
   lit ''Master_0'' \<noteq> upper ascii_upper (e2e_reference master_named) \<and>
   validate_node_reference ascii_upper no_rank one_master_named cluster_params
       (lit ''Master_0'')
     = Inr (lit ''10.0.0.5'', lit ''abc123'')"
  by (simp add: validate_node_reference_def set_iteration_def one_master_named_def
      master_named_def master_0_def accepted_def upper_def upper_cp_def Let_def lit_def)

text \<open>
  C10, amended. Matching on the reference is not insensitive to case. A string that
  equals the reference of a container up to case (their upper-cased forms agree), but is
  neither the reference of any container as stored nor its upper-cased form, and is not
  the IP address, the name or the id of a container either, is accepted by no container,
  and \<^verbatim>\<open>validate_node_reference\<close> raises \<^verbatim>\<open>click.BadParameter\<close> for it. The example is
  \<^verbatim>\<open>Master_0\<close> against the stored \<^verbatim>\<open>master_0\<close>.
\<close>

theorem resolve_case_variant:
  "let cc = find_cluster (cluster_id ctx_params);
       cs = masters cc @ agents cc @ public_agents cc
   in c \<in> set cs \<and> upper U v = upper U (e2e_reference c) \<and>
      (\<forall>x\<in>set cs. v \<noteq> e2e_reference x \<and> v \<noteq> upper U (e2e_reference x)) \<and>
      (\<forall>x\<in>set cs. v \<notin> {ip_address x, docker_container_name x, docker_container_id x})
      \<longrightarrow> (\<forall>x\<in>set cs. v \<notin> set (accepted U x)) \<and>
          validate_node_reference U rank find_cluster ctx_params v
            = Inl (BadParameter (no_such_node_message (cluster_id ctx_params) v))"
proof -
  define cc where "cc = find_cluster (cluster_id ctx_params)"
  define cs where "cs = masters cc @ agents cc @ public_agents cc"
  have "(\<forall>x\<in>set cs. v \<notin> set (accepted U x)) \<and>
          validate_node_reference U rank find_cluster ctx_params v
            = Inl (BadParameter (no_such_node_message (cluster_id ctx_params) v))"
    if refs: "\<forall>x\<in>set cs. v \<noteq> e2e_reference x \<and> v \<noteq> upper U (e2e_reference x)"
      and facts: "\<forall>x\<in>set cs. v \<notin> {ip_address x, docker_container_name x, docker_container_id x}"
  proof -
    have none: "\<forall>x\<in>set cs. v \<notin> set (accepted U x)"
      using refs facts by (auto simp: accepted_def Let_def)
    then have "first_accepting U v (set_iteration rank cs) = None"
      unfolding first_accepting_None set_set_iteration .
    then have "validate_node_reference U rank find_cluster ctx_params v
            = Inl (BadParameter (no_such_node_message (cluster_id ctx_params) v))"
      by (simp add: validate_node_reference_def cc_def cs_def Let_def)
    with none show ?thesis by simp
  qed
  then show ?thesis
    unfolding Let_def cc_def [symmetric] cs_def [symmetric] by blast
qed

theorem resolve_case_variant_witness:
  "upper ascii_upper (lit ''Master_0'') = upper ascii_upper (e2e_reference master_0) \<and>
   lit ''Master_0'' \<noteq> e2e_reference master_0 \<and>
   lit ''Master_0'' \<noteq> upper ascii_upper (e2e_reference master_0) \<and>
   validate_node_reference ascii_upper no_rank one_master cluster_params (lit ''Master_0'')
     = Inl (BadParameter (no_such_node_message (lit ''c1'') (lit ''Master_0'')))"
  using resolve_case_variant
    [of one_master cluster_params master_0 ascii_upper "lit ''Master_0''" no_rank]
  by (simp add: Let_def one_master_def master_0_def cluster_params_def
      upper_def upper_cp_def lit_def)

section \<open>Properties of the artifact classification\<close>

lemma startswith_prefix: "startswith s p \<longleftrightarrow> prefix p s"
  by (induction s p rule: startswith.induct) auto

lemma contains_sublist: "contains s sub \<longleftrightarrow> sublist sub s"
  by (induction s) (auto simp: startswith_prefix sublist_Cons_right)

lemma kept_line_iff:
  "kept_line line \<longleftrightarrow>
     \<not> (prefix (lit ''Extracting image'') line \<or> prefix (lit ''Loaded image'') line
        \<or> sublist (lit ''.tar'') line)"
  by (simp add: kept_line_def startswith_prefix contains_sublist)

lemma is_enterprise_decoded:
  "check_output env (get_version_args build_artifact) (str_path wdir) = Inr out \<Longrightarrow>
   decode out = Inr text \<Longrightarrow>
   is_enterprise loads env build_artifact wdir s = (is_enterprise_of_output loads text, s)"
  by (simp add: is_enterprise_def)

lemma is_enterprise_state: "snd (is_enterprise loads env build_artifact wdir s) = s"
  by (simp add: is_enterprise_def split: sum.splits)

lemma check_output_env:
  "check_output (env_of_output 0 out) args cwd = Inr out"
  by (simp add: check_output_def env_of_output_def)

lemma decode_ee_output: "decode ee_output = Inr ee_output"
  by (simp add: decode_def ee_output_def lit_def)

lemma decode_oss_output: "decode oss_output = Inr oss_output"
  by (simp add: decode_def oss_output_def lit_def)


text \<open>
  C4. Once the artifact has exited with status zero and its output is decoded,
  \<^verbatim>\<open>is_enterprise\<close> drops exactly the lines of the output that start with
  \<^verbatim>\<open>Extracting image\<close>, start with \<^verbatim>\<open>Loaded image\<close> or contain \<^verbatim>\<open>.tar\<close>, joins
  the lines that remain with single spaces and hands the result to the JSON decoder;
  when the decoder returns a value with a \<^verbatim>\<open>variant\<close> field, the result is \<open>True\<close>
  (enterprise) if and only if that field is the string \<^verbatim>\<open>ee\<close>, and \<open>False\<close> (open source)
  for any other value of the field.
\<close>

theorem is_enterprise_variant:
  assumes out: "check_output env (get_version_args build_artifact) (str_path wdir) = Inr out"
    and dec: "decode out = Inr text"
    and parsed: "loads (join (lit '' '')
        (filter (\<lambda>line. \<not> (prefix (lit ''Extracting image'') line
                     \<or> prefix (lit ''Loaded image'') line \<or> sublist (lit ''.tar'') line))
           (splitlines text))) = Inr version_info"
    and variant: "getitem version_info (lit ''variant'') = Inr variant"
  shows "filtered_text text = join (lit '' '')
        (filter (\<lambda>line. \<not> (prefix (lit ''Extracting image'') line
                     \<or> prefix (lit ''Loaded image'') line \<or> sublist (lit ''.tar'') line))
           (splitlines text)) \<and>
      fst (is_enterprise loads env build_artifact wdir s)
        = Inr (variant = JString (lit ''ee''))"
proof -
  have kept: "filter kept_line (splitlines text) =
      filter (\<lambda>line. \<not> (prefix (lit ''Extracting image'') line
                     \<or> prefix (lit ''Loaded image'') line \<or> sublist (lit ''.tar'') line))
           (splitlines text)"
    by (rule filter_cong) (simp_all add: kept_line_iff)
  then have joined: "filtered_text text = join (lit '' '')
        (filter (\<lambda>line. \<not> (prefix (lit ''Extracting image'') line
                     \<or> prefix (lit ''Loaded image'') line \<or> sublist (lit ''.tar'') line))
           (splitlines text))"
    by (simp add: filtered_text_def)
  with parsed have "loads (filtered_text text) = Inr version_info"
    by simp
  with variant have "is_enterprise_of_output loads text = Inr (variant = JString (lit ''ee''))"
    by (simp add: is_enterprise_of_output_def)
  with is_enterprise_decoded [OF out dec]
  have "fst (is_enterprise loads env build_artifact wdir s)
        = Inr (variant = JString (lit ''ee''))" by simp
  with joined show ?thesis by (rule conjI)
qed

theorem is_enterprise_variant_witness:
  "fst (is_enterprise json_loads (env_of_output 0 ee_output) artifact_path workspace state0)
     = Inr True \<and>
   fst (is_enterprise json_loads (env_of_output 0 oss_output) artifact_path workspace state0)
     = Inr False"
proof -
  let ?kept = "\<lambda>line. \<not> (prefix (lit ''Extracting image'') line
                     \<or> prefix (lit ''Loaded image'') line \<or> sublist (lit ''.tar'') line)"
  have ee: "json_loads (join (lit '' '') (filter ?kept (splitlines ee_output)))
      = Inr (JObject [(lit ''variant'', JString (lit ''ee'')),
                      (lit ''version'', JString (lit ''1.11.0''))])"
    by (simp add: ee_output_def splitlines_def is_linebreak_def lit_def sublist_Cons_right
        json_loads_def skip_ws_def is_ws_def append_char_def)
  have oss: "json_loads (join (lit '' '') (filter ?kept (splitlines oss_output)))
      = Inr (JObject [(lit ''variant'', JString (lit ''oss'')),
                      (lit ''version'', JString (lit ''1.11.0''))])"
    by (simp add: oss_output_def splitlines_def is_linebreak_def lit_def sublist_Cons_right
        json_loads_def skip_ws_def is_ws_def append_char_def)
  have v1: "getitem (JObject [(lit ''variant'', JString (lit ''ee'')),
                      (lit ''version'', JString (lit ''1.11.0''))]) (lit ''variant'')
      = Inr (JString (lit ''ee''))"
    by (simp add: lit_def)
  have v2: "getitem (JObject [(lit ''variant'', JString (lit ''oss'')),
                      (lit ''version'', JString (lit ''1.11.0''))]) (lit ''variant'')
      = Inr (JString (lit ''oss''))"
    by (simp add: lit_def)
  have "fst (is_enterprise json_loads (env_of_output 0 ee_output) artifact_path workspace state0)
      = Inr (JString (lit ''ee'') = JString (lit ''ee''))"
    using is_enterprise_variant [where loads = json_loads, OF check_output_env decode_ee_output ee v1]
    by (rule conjunct2)
  moreover
  have "fst (is_enterprise json_loads (env_of_output 0 oss_output) artifact_path workspace state0)
      = Inr (JString (lit ''oss'') = JString (lit ''ee''))"
    using is_enterprise_variant [where loads = json_loads, OF check_output_env decode_oss_output oss v2]
    by (rule conjunct2)
  ultimately show ?thesis by (simp add: lit_def)
qed



text \<open>
  C9. The result of \<^verbatim>\<open>is_enterprise\<close> depends on the decoded output of the artifact
  alone: two runs, in any two environments, on any artifact paths, workspace
  directories and states, that see the same output text end with the same result.
\<close>

theorem is_enterprise_deterministic:
  assumes "check_output env1 (get_version_args artifact1) (str_path wdir1) = Inr out1"
    and "decode out1 = Inr text"
    and "check_output env2 (get_version_args artifact2) (str_path wdir2) = Inr out2"
    and "decode out2 = Inr text"
  shows "fst (is_enterprise loads env1 artifact1 wdir1 s1)
       = fst (is_enterprise loads env2 artifact2 wdir2 s2)"
  using assms by (simp add: is_enterprise_decoded)

theorem is_enterprise_deterministic_witness:
  "fst (is_enterprise json_loads (env_of_output 0 ee_output) artifact_path workspace state0)
     = fst (is_enterprise json_loads
         ((env_of_output 0 ee_output)\<lparr>uuid4_hex := lit ''ffff''\<rparr>)
         [lit ''/'', lit ''copy.sh''] [lit ''/'', lit ''tmp'', lit ''ffff'']
         (state0\<lparr>console := [Echo_str (lit ''earlier run'')]\<rparr>))"
proof -
  have "check_output ((env_of_output 0 ee_output)\<lparr>uuid4_hex := lit ''ffff''\<rparr>)
      (get_version_args [lit ''/'', lit ''copy.sh''])
      (str_path [lit ''/'', lit ''tmp'', lit ''ffff'']) = Inr ee_output"
    by (simp add: check_output_def env_of_output_def)
  from is_enterprise_deterministic [OF check_output_env decode_ee_output this decode_ee_output]
  show ?thesis .
qed

subsection \<open>The workspace directory\<close>

text \<open>
  \<^verbatim>\<open>is_enterprise\<close> leaves the directories as they are, and \<^verbatim>\<open>validate_variant\<close>
  removes the workspace it created when the classification succeeds and when the artifact
  exits with a non-zero status.
\<close>

lemma dirs_echo: "dirs (echo x s) = dirs s"
  by (simp add: echo_def)

lemma rmtree_removes: "p \<notin> set (dirs (rmtree p s))"
  by (simp add: rmtree_def)

lemma mkdir_creates: "mkdir p s = Inr s1 \<Longrightarrow> p \<in> set (dirs s1)"
  by (auto simp: mkdir_def split: if_splits)

lemma validate_variant_auto:
  "mkdir (workspace_of env ctx_params) s = Inr s1 \<Longrightarrow>
   validate_variant loads env ctx_params (lit ''auto'') s =
     (case fst (is_enterprise loads env (resolve env (artifact ctx_params))
                 (workspace_of env ctx_params) s1) of
        Inl (CalledProcessError rc err) \<Rightarrow>
          (Inl (CalledProcessError rc err),
           echo (Echo_bytes err) (echo (Echo_str (lit ''Original error:''))
             (echo (Echo_str []) (echo (Echo_str doctor_message)
               (rmtree (workspace_of env ctx_params) s1)))))
      | Inl e \<Rightarrow> (Inl e, s1)
      | Inr enterprise \<Rightarrow>
          (Inr (if enterprise then lit ''enterprise'' else lit ''oss''),
           rmtree (workspace_of env ctx_params) s1))"
  using is_enterprise_state [of loads env "resolve env (artifact ctx_params)"
      "workspace_of env ctx_params" s1]
  by (cases "is_enterprise loads env (resolve env (artifact ctx_params))
        (workspace_of env ctx_params) s1")
     (auto simp: validate_variant_def workspace_of_def Let_def split: sum.splits error.splits)

lemma validate_variant_removes_on_success:
  assumes "mkdir (workspace_of env ctx_params) s = Inr s1"
    and "fst (is_enterprise loads env (resolve env (artifact ctx_params))
               (workspace_of env ctx_params) s1) = Inr enterprise"
  shows "workspace_of env ctx_params
    \<notin> set (dirs (snd (validate_variant loads env ctx_params (lit ''auto'') s)))"
  using assms by (simp add: validate_variant_auto rmtree_removes)

lemma validate_variant_removes_on_exit_status:
  assumes "mkdir (workspace_of env ctx_params) s = Inr s1"
    and "fst (is_enterprise loads env (resolve env (artifact ctx_params))
               (workspace_of env ctx_params) s1) = Inl (CalledProcessError rc err)"
  shows "workspace_of env ctx_params
    \<notin> set (dirs (snd (validate_variant loads env ctx_params (lit ''auto'') s)))"
  using assms by (simp add: validate_variant_auto rmtree_removes dirs_echo)

text \<open>
  C8 does not hold of the code on a malformed version report. The \<^verbatim>\<open>try\<close> of
  \<^verbatim>\<open>validate_variant\<close> catches \<^verbatim>\<open>subprocess.CalledProcessError\<close> only, so an
  exception of \<open>MalformedVersionReport\<close> leaves the function before either call of
  \<^verbatim>\<open>rmtree\<close>: the function fails with that exception and the workspace directory that
  it created still exists.
\<close>

theorem validate_variant_leaves_workspace:
  assumes made: "mkdir (workspace_of env ctx_params) s = Inr s1"
    and failed: "fst (is_enterprise loads env (resolve env (artifact ctx_params))
               (workspace_of env ctx_params) s1) = Inl e"
    and other: "MalformedVersionReport e"
  shows "validate_variant loads env ctx_params (lit ''auto'') s = (Inl e, s1) \<and>
         workspace_of env ctx_params \<in> set (dirs s1)"
  using assms mkdir_creates [OF made]
  by (auto simp: validate_variant_auto MalformedVersionReport_def)

theorem validate_variant_leaves_workspace_witness:
  "validate_variant json_loads (env_of_output 0 (lit ''not json'')) cluster_params
      (lit ''auto'') state0
     = (Inl JSONDecodeError, state0\<lparr>dirs := workspace # dirs state0\<rparr>) \<and>
   workspace \<in> set (dirs (state0\<lparr>dirs := workspace # dirs state0\<rparr>))"
proof -
  have w: "workspace_of (env_of_output 0 (lit ''not json'')) cluster_params = workspace"
    by (simp add: workspace_of_def env_of_output_def cluster_params_def workspace_def
        div_path_def)
  have made: "mkdir (workspace_of (env_of_output 0 (lit ''not json'')) cluster_params) state0
      = Inr (state0\<lparr>dirs := workspace # dirs state0\<rparr>)"
    unfolding w by (simp add: mkdir_def state0_def workspace_def lit_def)
  have failed: "fst (is_enterprise json_loads (env_of_output 0 (lit ''not json''))
      (resolve (env_of_output 0 (lit ''not json'')) (artifact cluster_params))
      (workspace_of (env_of_output 0 (lit ''not json'')) cluster_params)
      (state0\<lparr>dirs := workspace # dirs state0\<rparr>)) = Inl JSONDecodeError"
    by (simp add: is_enterprise_def check_output_env decode_def is_enterprise_of_output_def filtered_text_def
        splitlines_def is_linebreak_def kept_line_def json_loads_def skip_ws_def is_ws_def
        match_number_def match_integer_def lit_def)
  have "MalformedVersionReport JSONDecodeError"
    by (simp add: MalformedVersionReport_def)
  from validate_variant_leaves_workspace [OF made failed this] w
  show ?thesis by simp
qed

end
